theory Spec2Isabelle
  imports Complex_Main
begin

section \<open>Values of the host language\<close>

text \<open>
  TypeScript's \<open>number\<close> is an IEEE double. Every finite double is a real number and
  comparison of finite doubles is comparison of those reals, so a finite number is modelled
  by its real value; the three non-finite values are constructors of their own.
\<close>

datatype number = Finite real | NaN | PosInfinity | NegInfinity

text \<open>The operator \<open><\<close> on numbers: any comparison with \<open>NaN\<close> is false.\<close>

fun js_lt :: "number \<Rightarrow> number \<Rightarrow> bool" where
  "js_lt NaN y = False"
| "js_lt x NaN = False"
| "js_lt (Finite x) (Finite y) = (x < y)"
| "js_lt (Finite x) PosInfinity = True"
| "js_lt (Finite x) NegInfinity = False"
| "js_lt PosInfinity y = False"
| "js_lt NegInfinity (Finite y) = True"
| "js_lt NegInfinity PosInfinity = True"
| "js_lt NegInfinity NegInfinity = False"

text \<open>The payloads the controllers send: array and object literals.\<close>

datatype json =
    JNull
  | JBool bool
  | JNum number
  | JStr string
  | JArr "json list"
  | JObj "(string \<times> json) list"

section \<open>utils/asyncHandler.ts\<close>

text \<open>
  A handler receives the request, the response object and the continuation. What it does
  is observed as a list of events, in the order they happen: a call of a handler, a call
  of a continuation with a value, or a write on a response object. The type variables
  stand for the request (\<open>'q\<close>), the identity of the response object (\<open>'r\<close>), the identity
  of the continuation (\<open>'n\<close>) and the values that can be thrown or passed on (\<open>'e\<close>).
\<close>

datatype res_op = Status number | Send json

datatype ('q, 'r, 'n, 'e) event =
    Invoke 'q 'r 'n
  | Next 'n 'e
  | Write 'r res_op

text \<open>
  A deferred result (\<open>Promise<void | Response>\<close>) ends fulfilled with \<open>undefined\<close> or the
  response object, ends rejected with a value, or never settles. A call of a function
  either throws or returns such a deferred result.
\<close>

datatype ('r, 'e) promise = Fulfilled "'r option" | Rejected 'e | Pending

datatype ('r, 'e) completion = Threw 'e | Returned "('r, 'e) promise"

record ('q, 'r, 'n, 'e) outcome =
  effects :: "('q, 'r, 'n, 'e) event list"
  completion :: "('r, 'e) completion"

type_synonym ('q, 'r, 'n, 'e) AsyncRequestHandler =
  "'q \<Rightarrow> 'r \<Rightarrow> 'n \<Rightarrow> ('q, 'r, 'n, 'e) outcome"

text \<open>
  What the adapted handler does is a trace in which every event carries who performed it:
  the adapter's own code, or the wrapped handler it called. \<open>escaped\<close> is the exception
  that leaves the adapted handler, if any.
\<close>

datatype actor = Adapter | Wrapped

record ('q, 'r, 'n, 'e) run =
  trace :: "(actor \<times> ('q, 'r, 'n, 'e) event) list"
  escaped :: "'e option"

type_synonym ('q, 'r, 'n, 'e) RequestHandler =
  "'q \<Rightarrow> 'r \<Rightarrow> 'n \<Rightarrow> ('q, 'r, 'n, 'e) run"

text \<open>
  \<open>Promise.resolve(p)\<close> on a deferred result is that deferred result. \<open>p.catch(f)\<close> runs
  \<open>f\<close> on the rejection value when \<open>p\<close> rejects and runs nothing otherwise.
\<close>

definition Promise_resolve :: "('r, 'e) promise \<Rightarrow> ('r, 'e) promise" where
  "Promise_resolve p = p"

fun catch :: "('r, 'e) promise \<Rightarrow> ('e \<Rightarrow> 'a list) \<Rightarrow> 'a list" where
  "catch (Rejected err) f = f err"
| "catch (Fulfilled v) f = []"
| "catch Pending f = []"

text \<open>
  \<^verbatim>\<open>
  return (req, res, next) => {
      Promise.resolve(requestHandler(req, res, next)).catch((err) => next(err));
  };
  \<close>
  The call \<open>requestHandler(req, res, next)\<close> is evaluated first; when it throws, nothing
  else of the body runs and the exception leaves the adapted handler.
\<close>

definition asyncHandler ::
  "('q, 'r, 'n, 'e) AsyncRequestHandler \<Rightarrow> ('q, 'r, 'n, 'e) RequestHandler" where
  "asyncHandler requestHandler req res next =
     (let out = requestHandler req res next;
          called = (Adapter, Invoke req res next) # map (Pair Wrapped) (effects out)
      in case completion out of
           Threw e \<Rightarrow> \<lparr>trace = called, escaped = Some e\<rparr>
         | Returned p \<Rightarrow>
             \<lparr>trace = called @
                  map (Pair Adapter) (catch (Promise_resolve p) (\<lambda>err. [Next next err])),
              escaped = None\<rparr>)"

text \<open>Reading a trace: the events of one actor, and the events of one kind.\<close>

definition events_of :: "actor \<Rightarrow> (actor \<times> 'a) list \<Rightarrow> 'a list" where
  "events_of a tr = map snd (filter (\<lambda>p. fst p = a) tr)"

fun next_calls :: "('q, 'r, 'n, 'e) event list \<Rightarrow> ('n \<times> 'e) list" where
  "next_calls [] = []"
| "next_calls (Next n e # evs) = (n, e) # next_calls evs"
| "next_calls (Invoke q r n # evs) = next_calls evs"
| "next_calls (Write r w # evs) = next_calls evs"

fun res_writes :: "('q, 'r, 'n, 'e) event list \<Rightarrow> ('r \<times> res_op) list" where
  "res_writes [] = []"
| "res_writes (Write r w # evs) = (r, w) # res_writes evs"
| "res_writes (Invoke q r n # evs) = res_writes evs"
| "res_writes (Next n e # evs) = res_writes evs"

fun invocations :: "('q, 'r, 'n, 'e) event list \<Rightarrow> ('q \<times> 'r \<times> 'n) list" where
  "invocations [] = []"
| "invocations (Invoke q r n # evs) = (q, r, n) # invocations evs"
| "invocations (Next n e # evs) = invocations evs"
| "invocations (Write r w # evs) = invocations evs"

section \<open>controllers/user.controller.ts\<close>

text \<open>
  The controllers are \<open>async\<close> arrow functions. The body of an arrow function performs
  its events and then returns a value, throws, or stays suspended at an \<open>await\<close> for
  ever. Declared \<open>async\<close>, the function never throws at its call: it returns a deferred
  result that is fulfilled with the returned value or rejected with the thrown one.
\<close>

datatype ('r, 'e) ending = Returns "'r option" | Throws 'e | Suspends

record ('q, 'r, 'n, 'e) body =
  performed :: "('q, 'r, 'n, 'e) event list"
  ending :: "('r, 'e) ending"

definition async ::
  "('q \<Rightarrow> 'r \<Rightarrow> 'n \<Rightarrow> ('q, 'r, 'n, 'e) body) \<Rightarrow> ('q, 'r, 'n, 'e) AsyncRequestHandler" where
  "async f req res next =
     (let b = f req res next
      in \<lparr>effects = performed b,
          completion =
            (case ending b of
               Returns v \<Rightarrow> Returned (Fulfilled v)
             | Throws e \<Rightarrow> Returned (Rejected e)
             | Suspends \<Rightarrow> Returned Pending)\<rparr>)"

text \<open>
  Each controller is the adapter applied to an anonymous \<open>async\<close> function; the function
  is named here after the controller, with \<open>_fn\<close> appended.

  \<^verbatim>\<open>getUsers = asyncHandler(async (req, res) => { res.send([]); })\<close>
\<close>

definition getUsers_fn :: "('q, 'r, 'n, 'e) AsyncRequestHandler" where
  "getUsers_fn =
     async (\<lambda>req res next.
       \<lparr>performed = [Write res (Send (JArr []))], ending = Returns None\<rparr>)"

definition getUsers :: "('q, 'r, 'n, 'e) RequestHandler" where
  "getUsers = asyncHandler getUsers_fn"

text \<open>
  \<^verbatim>\<open>getUserById = asyncHandler(async (req, res) => { return res.send({}) })\<close>
  \<open>res.send\<close> returns the response object.
\<close>

definition getUserById_fn :: "('q, 'r, 'n, 'e) AsyncRequestHandler" where
  "getUserById_fn =
     async (\<lambda>req res next.
       \<lparr>performed = [Write res (Send (JObj []))], ending = Returns (Some res)\<rparr>)"

definition getUserById :: "('q, 'r, 'n, 'e) RequestHandler" where
  "getUserById = asyncHandler getUserById_fn"

text \<open>
  \<^verbatim>\<open>
  createUser = asyncHandler(async (req, res, next) => {
      return res.status(201).send({
          id: 1, username: "anson", email: "anson@ansonthedev.com" });
  })
  \<close>
\<close>

definition createUser_fn :: "('q, 'r, 'n, 'e) AsyncRequestHandler" where
  "createUser_fn =
     async (\<lambda>req res next.
       \<lparr>performed =
          [Write res (Status (Finite 201)),
           Write res (Send (JObj [(''id'', JNum (Finite 1)),
                                  (''username'', JStr ''anson''),
                                  (''email'', JStr ''anson@ansonthedev.com'')]))],
        ending = Returns (Some res)\<rparr>)"

definition createUser :: "('q, 'r, 'n, 'e) RequestHandler" where
  "createUser = asyncHandler createUser_fn"

text \<open>
  \<^verbatim>\<open>loginUser = asyncHandler(async (req, res, next) => { })\<close>
\<close>

definition loginUser_fn :: "('q, 'r, 'n, 'e) AsyncRequestHandler" where
  "loginUser_fn = async (\<lambda>req res next. \<lparr>performed = [], ending = Returns None\<rparr>)"

definition loginUser :: "('q, 'r, 'n, 'e) RequestHandler" where
  "loginUser = asyncHandler loginUser_fn"

section \<open>The response object\<close>

text \<open>
  The response object of the framework, as far as the controllers use it. It holds a
  status code, 200 until \<open>res.status\<close> sets another; \<open>res.status\<close> refuses a code that is
  not an integer from 100 to 999. \<open>res.send\<close> answers the client with the status code in
  force at that moment and the payload; what was sent is kept in \<open>res_sent\<close> and no later
  write changes it. A second \<open>send\<close> on a response that has been sent fails.
\<close>

record response =
  res_statusCode :: number
  res_sent :: "(number \<times> json) option"

definition fresh_response :: response where
  "fresh_response = \<lparr>res_statusCode = Finite 200, res_sent = None\<rparr>"

datatype http_error = ERR_HTTP_HEADERS_SENT | ERR_INVALID_STATUS_CODE

fun valid_status :: "number \<Rightarrow> bool" where
  "valid_status (Finite x) = (real_of_int \<lfloor>x\<rfloor> = x \<and> 100 \<le> x \<and> x \<le> 999)"
| "valid_status NaN = False"
| "valid_status PosInfinity = False"
| "valid_status NegInfinity = False"

fun res_apply :: "res_op \<Rightarrow> response \<Rightarrow> http_error + response" where
  "res_apply (Status code) r =
     (if valid_status code then Inr (r\<lparr>res_statusCode := code\<rparr>)
      else Inl ERR_INVALID_STATUS_CODE)"
| "res_apply (Send payload) r =
     (case res_sent r of
        None \<Rightarrow> Inr (r\<lparr>res_sent := Some (res_statusCode r, payload)\<rparr>)
      | Some old \<Rightarrow> Inl ERR_HTTP_HEADERS_SENT)"

fun res_apply_all :: "res_op list \<Rightarrow> response \<Rightarrow> http_error + response" where
  "res_apply_all [] r = Inr r"
| "res_apply_all (w # ws) r =
     (case res_apply w r of Inl err \<Rightarrow> Inl err | Inr r' \<Rightarrow> res_apply_all ws r')"

text \<open>The writes of a trace on the response object \<open>res\<close>, by whoever made them.\<close>

definition writes_on :: "'r \<Rightarrow> (actor \<times> ('q, 'r, 'n, 'e) event) list \<Rightarrow> res_op list" where
  "writes_on res tr = map snd (filter (\<lambda>w. fst w = res) (res_writes (map snd tr)))"

definition response_after ::
  "'r \<Rightarrow> response \<Rightarrow> ('q, 'r, 'n, 'e) run \<Rightarrow> http_error + response" where
  "response_after res r0 rn = res_apply_all (writes_on res (trace rn)) r0"

section \<open>routes/user.route.ts\<close>

text \<open>
  A request carries its method, its path as the list of its segments as they stand in
  the request line, still percent-encoded (\<open>/api/v1/users/7\<close> is \<open>[api, v1, users, 7]\<close>; a
  trailing slash adds no segment), the parameters a route pattern has bound, its body and
  its query. The methods are those routed by their name; \<open>HEAD\<close> and \<open>OPTIONS\<close>, which the
  framework treats in its own way, are not represented.
\<close>

datatype http_method = GET | POST | PUT | PATCH | DELETE

record request =
  "method" :: http_method
  path :: "string list"
  params :: "(string \<times> string) list"
  body :: json
  query :: "(string \<times> string) list"

text \<open>
  The router compares the literal parts of a path without regard to the case of the
  letters \<open>A\<close> to \<open>Z\<close>.
\<close>

definition lower :: "char \<Rightarrow> char" where
  "lower c =
     (case map_of (zip ''ABCDEFGHIJKLMNOPQRSTUVWXYZ'' ''abcdefghijklmnopqrstuvwxyz'') c of
        None \<Rightarrow> c
      | Some l \<Rightarrow> l)"

definition same_segment :: "string \<Rightarrow> string \<Rightarrow> bool" where
  "same_segment a b = (map lower a = map lower b)"

text \<open>
  A route pattern is a list of segments, literal or a named parameter (\<open>:id\<close>). The path is
  matched against the whole pattern first: same length, literals equal up to case, one
  non-empty segment for each parameter. Then the parameters are decoded from left to right
  with \<open>decodeURIComponent\<close>, which is a function of the language and is a parameter here:
  it gives \<open>None\<close> where the real one throws. A segment that does not decode ends the match
  with an error, which the framework answers with status 400.
\<close>

datatype segment = Lit string | Param string

datatype matching = No_match | Bad_param string | Matched "(string \<times> string) list"

fun match_path ::
  "(string \<Rightarrow> string option) \<Rightarrow> segment list \<Rightarrow> string list \<Rightarrow> matching" where
  "match_path decodeURIComponent [] [] = Matched []"
| "match_path decodeURIComponent (Lit s # ps) (x # xs) =
     (if same_segment x s then match_path decodeURIComponent ps xs else No_match)"
| "match_path decodeURIComponent (Param k # ps) (x # xs) =
     (if x = [] then No_match
      else case match_path decodeURIComponent ps xs of
             No_match \<Rightarrow> No_match
           | Bad_param y \<Rightarrow>
               (case decodeURIComponent x of None \<Rightarrow> Bad_param x | Some v \<Rightarrow> Bad_param y)
           | Matched bound \<Rightarrow>
               (case decodeURIComponent x of
                  None \<Rightarrow> Bad_param x
                | Some v \<Rightarrow> Matched ((k, v) # bound)))"
| "match_path decodeURIComponent [] (x # xs) = No_match"
| "match_path decodeURIComponent (p # ps) [] = No_match"

type_synonym ('r, 'n, 'e) route =
  "http_method \<times> segment list \<times> (request, 'r, 'n, 'e) RequestHandler"

text \<open>
  \<^verbatim>\<open>
  router.get("/", getUsers);
  router.get("/:id", getUserById);
  router.post("/", createUser);
  \<close>
\<close>

definition router :: "('r, 'n, 'e) route list" where
  "router =
     [(GET, [], getUsers),
      (GET, [Param ''id''], getUserById),
      (POST, [], createUser)]"

text \<open>
  What becomes of a request: a controller ran; a stage before the router passed an error
  on or answered by itself; a parameter did not decode; or nothing matched and the request
  is left to the framework.
\<close>

datatype ('r, 'n, 'e) served =
    Handled "(request, 'r, 'n, 'e) run"
  | Refused 'e
  | Answered "res_op list"
  | Param_error string
  | Not_found

text \<open>
  The routes are tried in order. A route is tried on the path first and on the method
  second; the first route that fits both handles the request, with the decoded parameters
  in \<open>req.params\<close>. A parameter that does not decode ends the search: no later route is
  taken once the error is pending.
\<close>

fun dispatch ::
  "(string \<Rightarrow> string option) \<Rightarrow> ('r, 'n, 'e) route list \<Rightarrow> request \<Rightarrow> 'r \<Rightarrow> 'n \<Rightarrow>
   ('r, 'n, 'e) served" where
  "dispatch decodeURIComponent [] req res next = Not_found"
| "dispatch decodeURIComponent ((m, pat, h) # rs) req res next =
     (case match_path decodeURIComponent pat (path req) of
        No_match \<Rightarrow> dispatch decodeURIComponent rs req res next
      | Bad_param x \<Rightarrow> Param_error x
      | Matched bound \<Rightarrow>
          (if m = method req then Handled (h (req\<lparr>params := bound\<rparr>) res next)
           else dispatch decodeURIComponent rs req res next))"

section \<open>app.ts\<close>

text \<open>
  \<^verbatim>\<open>
  app.use(cors({ origin: process.env.CORS_ORIGIN, credentials: true }));
  app.use(express.json({ limit: "16kb" }));
  app.use(express.urlencoded({ extended: true, limit: "16kb" }));
  app.use("/api/v1/users", userRouter);
  \<close>
  The three stages before the router are library functions and are parameters here. A
  stage passes the request on, as it is or with its body filled in (\<open>next()\<close>), passes an
  error on (\<open>next(err)\<close>: a body that does not parse, a body over the limit), or answers
  the request by itself. None of the three sets the status code or sends a payload on a
  request it passes on.
\<close>

datatype 'e stage = Pass request | Refuse 'e | Answer "res_op list"

type_synonym 'e middleware = "request \<Rightarrow> 'e stage"

fun run_stages :: "'e middleware list \<Rightarrow> request \<Rightarrow> 'e stage" where
  "run_stages [] req = Pass req"
| "run_stages (mw # mws) req =
     (case mw req of
        Pass req' \<Rightarrow> run_stages mws req'
      | Refuse e \<Rightarrow> Refuse e
      | Answer ws \<Rightarrow> Answer ws)"

text \<open>
  The router is mounted at \<open>/api/v1/users\<close>: it sees the requests whose path starts with
  the mount path, up to case, with that prefix taken off.
\<close>

definition mount_path :: "string list" where
  "mount_path = [''api'', ''v1'', ''users'']"

fun strip_mount :: "string list \<Rightarrow> string list \<Rightarrow> string list option" where
  "strip_mount [] xs = Some xs"
| "strip_mount (m # ms) [] = None"
| "strip_mount (m # ms) (x # xs) = (if same_segment x m then strip_mount ms xs else None)"

definition app ::
  "'e middleware \<Rightarrow> 'e middleware \<Rightarrow> 'e middleware \<Rightarrow> (string \<Rightarrow> string option) \<Rightarrow>
   request \<Rightarrow> 'r \<Rightarrow> 'n \<Rightarrow> ('r, 'n, 'e) served" where
  "app cors express_json express_urlencoded decodeURIComponent req res next =
     (case run_stages [cors, express_json, express_urlencoded] req of
        Refuse e \<Rightarrow> Refused e
      | Answer ws \<Rightarrow> Answered ws
      | Pass req' \<Rightarrow>
          (case strip_mount mount_path (path req') of
             None \<Rightarrow> Not_found
           | Some rest \<Rightarrow> dispatch decodeURIComponent router (req'\<lparr>path := rest\<rparr>) res next))"

section \<open>utils/apiError.ts and utils/apiResponse.ts\<close>

text \<open>
  \<^verbatim>\<open>
  class ApiError extends Error {
      public readonly statusCode: number;
      public readonly success: boolean = false;
      constructor(statusCode: number, message: string = "Something went wrong",
                  stack: string = "") {
          super(message)
          this.statusCode = statusCode
          this.message = message
          if(stack) { this.stack = stack }
          else { Error.captureStackTrace(this, this.constructor) }
      }
  }
  \<close>
  An argument left out is \<open>None\<close>. The captured stack trace is whatever the runtime
  records at the call; it is kept apart from a trace that was passed in.
\<close>

datatype stack_trace = Supplied string | Captured

record ApiError =
  statusCode :: number
  message :: string
  success :: bool
  stack :: stack_trace

definition new_ApiError :: "number \<Rightarrow> string option \<Rightarrow> string option \<Rightarrow> ApiError" where
  "new_ApiError statusCode_arg message_arg stack_arg =
     (let message_val = (case message_arg of None \<Rightarrow> ''Something went wrong'' | Some m \<Rightarrow> m);
          stack_val = (case stack_arg of None \<Rightarrow> [] | Some s \<Rightarrow> s)
      in \<lparr>ApiError.statusCode = statusCode_arg,
          message = message_val,
          success = False,
          stack = (if stack_val \<noteq> [] then Supplied stack_val else Captured)\<rparr>)"

text \<open>
  \<open>readonly\<close> is checked by the compiler on direct assignments and is gone at run time:
  the instance is an ordinary object, and the class neither freezes it nor defines the
  property as unwritable. \<open>Object.assign(target, source)\<close> of the language, which the
  compiler accepts on an \<open>ApiError\<close>, writes each property of \<open>source\<close> on \<open>target\<close>, in
  order. A source object is the list of its properties.
\<close>

datatype ApiError_property =
    Prop_statusCode number
  | Prop_message string
  | Prop_success bool
  | Prop_stack string

fun set_property :: "ApiError_property \<Rightarrow> ApiError \<Rightarrow> ApiError" where
  "set_property (Prop_statusCode c) e = e\<lparr>ApiError.statusCode := c\<rparr>"
| "set_property (Prop_message m) e = e\<lparr>ApiError.message := m\<rparr>"
| "set_property (Prop_success b) e = e\<lparr>ApiError.success := b\<rparr>"
| "set_property (Prop_stack s) e = e\<lparr>ApiError.stack := Supplied s\<rparr>"

fun Object_assign :: "ApiError \<Rightarrow> ApiError_property list \<Rightarrow> ApiError" where
  "Object_assign e [] = e"
| "Object_assign e (p # ps) = Object_assign (set_property p e) ps"

text \<open>
  \<^verbatim>\<open>
  class ApiResponse<T = object> {
      constructor(statusCode: number, data: T, message: string = "Success") {
          this.statusCode = statusCode
          this.data = data
          this.message = message
          this.success = statusCode < 400
      }
  }
  \<close>
\<close>

record 'a ApiResponse =
  statusCode :: number
  data :: 'a
  message :: string
  success :: bool

definition new_ApiResponse :: "number \<Rightarrow> 'a \<Rightarrow> string option \<Rightarrow> 'a ApiResponse" where
  "new_ApiResponse statusCode_arg data_arg message_arg =
     (let message_val = (case message_arg of None \<Rightarrow> ''Success'' | Some m \<Rightarrow> m)
      in \<lparr>statusCode = statusCode_arg,
          data = data_arg,
          message = message_val,
          success = js_lt statusCode_arg (Finite 400)\<rparr>)"

section \<open>Example handlers, requests and library stages\<close>

text \<open>
  Three handlers of the type the adapter accepts, on numbered response objects and
  continuations and with strings as the values thrown.

  \<^verbatim>\<open>async (req, res, next) => { res.status(500); throw "boom" }\<close>
\<close>

definition failing_body :: "request \<Rightarrow> nat \<Rightarrow> nat \<Rightarrow> (request, nat, nat, string) body" where
  "failing_body req res next =
     \<lparr>performed = [Write res (Status (Finite 500))], ending = Throws ''boom''\<rparr>"

definition failing_fn :: "(request, nat, nat, string) AsyncRequestHandler" where
  "failing_fn = async failing_body"

text \<open>
  \<^verbatim>\<open>(req, res, next) => { throw "boom" }\<close>, not declared \<open>async\<close>: the call itself throws.
  Its return type \<open>never\<close> is assignable to the deferred result the adapter asks for.
\<close>

definition throwing_fn :: "(request, nat, nat, string) AsyncRequestHandler" where
  "throwing_fn req res next = \<lparr>effects = [], completion = Threw ''boom''\<rparr>"

text \<open>
  \<^verbatim>\<open>async (req, res, next) => { next("route") }\<close>: a handler that passes the request
  on by itself and succeeds.
\<close>

definition passing_fn :: "(request, nat, nat, string) AsyncRequestHandler" where
  "passing_fn =
     async (\<lambda>req res next. \<lparr>performed = [Next next ''route''], ending = Returns None\<rparr>)"

text \<open>
  Requests: create a user, list the users, read user \<open>7\<close>, user \<open>anson\<close> and a user whose
  identifier is cut off in the middle of an escape.
\<close>

definition post_users :: request where
  "post_users =
     \<lparr>method = POST, path = [''api'', ''v1'', ''users''], params = [],
      body = JObj [(''username'', JStr ''bob'')], query = [(''loginAfterCreate'', ''true'')]\<rparr>"

definition get_users :: request where
  "get_users =
     \<lparr>method = GET, path = [''api'', ''v1'', ''users''], params = [],
      body = JNull, query = []\<rparr>"

definition get_user_7 :: request where
  "get_user_7 =
     \<lparr>method = GET, path = [''api'', ''v1'', ''users'', ''7''], params = [],
      body = JNull, query = []\<rparr>"

definition get_user_anson :: request where
  "get_user_anson =
     \<lparr>method = GET, path = [''API'', ''v1'', ''Users'', ''anson''], params = [],
      body = JNull, query = []\<rparr>"

definition get_user_cut :: request where
  "get_user_cut =
     \<lparr>method = GET, path = [''api'', ''v1'', ''users'', ''%E0%A4%A''], params = [],
      body = JNull, query = []\<rparr>"

text \<open>
  Stand-ins for the library stages and for the decoder, for running the application on
  these requests. \<open>pass_on\<close> passes every request on unchanged. \<open>strict_json\<close> takes the
  body of the request for the value its text denotes, \<open>JNull\<close> for a request without a
  body, and refuses, as a parser in strict mode does, a text that is not an object or an
  array. \<open>decode_unescaped\<close> returns a
  segment without \<open>%\<close> as it is, as the real decoder does, and refuses every other.
\<close>

definition pass_on :: "string middleware" where
  "pass_on req = Pass req"

definition strict_json :: "string middleware" where
  "strict_json req =
     (case body req of
        JObj kvs \<Rightarrow> Pass req
      | JArr vs \<Rightarrow> Pass req
      | JNull \<Rightarrow> Pass req
      | JBool b \<Rightarrow> Refuse ''400''
      | JNum n \<Rightarrow> Refuse ''400''
      | JStr s \<Rightarrow> Refuse ''400'')"

definition decode_unescaped :: "string \<Rightarrow> string option" where
  "decode_unescaped s = (if CHR ''%'' \<in> set s then None else Some s)"

section \<open>Reading traces\<close>

lemma events_of_Nil: "events_of a [] = []"
  by (simp add: events_of_def)

lemma events_of_Cons:
  "events_of a ((b, e) # tr) = (if b = a then e # events_of a tr else events_of a tr)"
  by (simp add: events_of_def)

lemma events_of_append: "events_of a (tr @ tr') = events_of a tr @ events_of a tr'"
  by (simp add: events_of_def)

lemma events_of_map_Pair:
  "events_of a (map (Pair b) evs) = (if b = a then evs else [])"
  by (simp add: events_of_def filter_map comp_def)

lemma asyncHandler_Returned:
  "completion (h req res next) = Returned p \<Longrightarrow>
   asyncHandler h req res next =
     \<lparr>trace = (Adapter, Invoke req res next) # map (Pair Wrapped) (effects (h req res next)) @
              map (Pair Adapter) (catch p (\<lambda>err. [Next next err])),
      escaped = None\<rparr>"
  by (simp add: asyncHandler_def Promise_resolve_def Let_def)

lemma asyncHandler_Threw:
  "completion (h req res next) = Threw e \<Longrightarrow>
   asyncHandler h req res next =
     \<lparr>trace = (Adapter, Invoke req res next) # map (Pair Wrapped) (effects (h req res next)),
      escaped = Some e\<rparr>"
  by (simp add: asyncHandler_def Let_def)

lemma adapter_events:
  "events_of Adapter (trace (asyncHandler h req res next)) =
     Invoke req res next #
     (case completion (h req res next) of
        Threw e \<Rightarrow> []
      | Returned p \<Rightarrow> catch p (\<lambda>err. [Next next err]))"
  by (cases "completion (h req res next)")
     (simp_all add: asyncHandler_Returned asyncHandler_Threw events_of_Cons events_of_append
        events_of_map_Pair)

lemma wrapped_events:
  "events_of Wrapped (trace (asyncHandler h req res next)) = effects (h req res next)"
  by (cases "completion (h req res next)")
     (simp_all add: asyncHandler_Returned asyncHandler_Threw events_of_Cons events_of_append
        events_of_map_Pair)

lemma escaped_asyncHandler:
  "escaped (asyncHandler h req res next) =
     (case completion (h req res next) of Threw e \<Rightarrow> Some e | Returned p \<Rightarrow> None)"
  by (cases "completion (h req res next)")
     (simp_all add: asyncHandler_Returned asyncHandler_Threw)

lemma next_calls_append: "next_calls (xs @ ys) = next_calls xs @ next_calls ys"
  by (induction xs rule: next_calls.induct) simp_all

lemma res_writes_append: "res_writes (xs @ ys) = res_writes xs @ res_writes ys"
  by (induction xs rule: res_writes.induct) simp_all

lemma all_events:
  "map snd (trace (asyncHandler h req res next)) =
     Invoke req res next # effects (h req res next) @
     (case completion (h req res next) of
        Threw e \<Rightarrow> []
      | Returned p \<Rightarrow> catch p (\<lambda>err. [Next next err]))"
  by (cases "completion (h req res next)")
     (simp_all add: asyncHandler_Returned asyncHandler_Threw comp_def)

section \<open>The adapter\<close>

text \<open>
  C1. When the deferred result returned by the wrapped handler rejects with \<open>E\<close>, the
  adapted handler calls the continuation exactly once, with exactly \<open>E\<close>, writes nothing
  on a response object itself, and no exception leaves it.
\<close>

theorem asyncHandler_rejected_calls_next_once:
  assumes "completion (requestHandler req res next) = Returned (Rejected E)"
  shows "next_calls (events_of Adapter (trace (asyncHandler requestHandler req res next))) = [(next, E)]
       \<and> res_writes (events_of Adapter (trace (asyncHandler requestHandler req res next))) = []
       \<and> escaped (asyncHandler requestHandler req res next) = None"
  using assms by (simp add: adapter_events escaped_asyncHandler)

theorem asyncHandler_rejected_calls_next_once_witness:
  "completion (failing_fn get_users 1 2) = Returned (Rejected ''boom'')
   \<and> next_calls (events_of Adapter (trace (asyncHandler failing_fn get_users 1 2))) = [(2, ''boom'')]
   \<and> res_writes (events_of Adapter (trace (asyncHandler failing_fn get_users 1 2))) = []
   \<and> escaped (asyncHandler failing_fn get_users 1 2) = None"
proof -
  have rejects: "completion (failing_fn get_users 1 2) = Returned (Rejected ''boom'')"
    by (simp add: failing_fn_def failing_body_def async_def)
  show ?thesis
    using rejects
      asyncHandler_rejected_calls_next_once [of failing_fn get_users 1 2 "''boom''"]
    by blast
qed

text \<open>
  C2. When the deferred result returned by the wrapped handler is fulfilled, the adapted
  handler makes no call of the continuation: the calls in the whole trace are those the
  wrapped handler made itself.
\<close>

theorem asyncHandler_fulfilled_never_calls_next:
  assumes "completion (requestHandler req res next) = Returned (Fulfilled v)"
  shows "next_calls (events_of Adapter (trace (asyncHandler requestHandler req res next))) = []
       \<and> next_calls (map snd (trace (asyncHandler requestHandler req res next))) =
           next_calls (effects (requestHandler req res next))
       \<and> escaped (asyncHandler requestHandler req res next) = None"
  using assms by (simp add: adapter_events all_events escaped_asyncHandler next_calls_append)

theorem asyncHandler_fulfilled_never_calls_next_witness:
  "completion (passing_fn get_users 1 2) = Returned (Fulfilled None)
   \<and> next_calls (events_of Adapter (trace (asyncHandler passing_fn get_users 1 2))) = []
   \<and> next_calls (map snd (trace (asyncHandler passing_fn get_users 1 2))) = [(2, ''route'')]
   \<and> escaped (asyncHandler passing_fn get_users 1 2) = None"
proof -
  have fulfils: "completion (passing_fn get_users 1 2) = Returned (Fulfilled None)"
    by (simp add: passing_fn_def async_def)
  have own: "next_calls (effects (passing_fn get_users 1 2)) = [(2, ''route'')]"
    by (simp add: passing_fn_def async_def)
  show ?thesis
    using fulfils own
      asyncHandler_fulfilled_never_calls_next [of passing_fn get_users 1 2 None]
    by simp
qed

text \<open>
  C3, as stated, fails for a wrapped handler whose call throws: the exception leaves the
  adapted handler and the continuation is never called.
\<close>

theorem asyncHandler_sync_throw_counterexample:
  "escaped (asyncHandler throwing_fn get_users 1 2) = Some ''boom''
   \<and> next_calls (map snd (trace (asyncHandler throwing_fn get_users 1 2))) = []"
  by (simp add: all_events escaped_asyncHandler throwing_fn_def)

text \<open>
  C3, amended. A failure that reaches the adapter as the rejection of the returned deferred
  result is passed to the continuation, once, and nothing leaves the adapted handler; an
  error thrown in the body of a function declared \<open>async\<close> arrives in this way. An error
  thrown by the call of the wrapped handler itself is not caught: it leaves the adapted
  handler, which makes no call of the continuation.
\<close>

theorem asyncHandler_failure_routing:
  "(ending (f req res next) = Throws e \<longrightarrow>
      escaped (asyncHandler (async f) req res next) = None
      \<and> next_calls (events_of Adapter (trace (asyncHandler (async f) req res next))) = [(next, e)])
   \<and> (completion (h req res next) = Returned (Rejected e) \<longrightarrow>
      escaped (asyncHandler h req res next) = None
      \<and> next_calls (events_of Adapter (trace (asyncHandler h req res next))) = [(next, e)])
   \<and> (completion (g req res next) = Threw e \<longrightarrow>
      escaped (asyncHandler g req res next) = Some e
      \<and> next_calls (events_of Adapter (trace (asyncHandler g req res next))) = [])
   \<and> escaped (asyncHandler (async f) req res next) = None"
  by (simp add: adapter_events escaped_asyncHandler async_def Let_def split: ending.split)

theorem asyncHandler_failure_routing_witness:
  "ending (failing_body get_users 1 2) = Throws ''boom''
   \<and> completion (failing_fn get_users 1 2) = Returned (Rejected ''boom'')
   \<and> completion (throwing_fn get_users 1 2) = Threw ''boom''
   \<and> escaped (asyncHandler (async failing_body) get_users 1 2) = None
   \<and> next_calls (events_of Adapter (trace (asyncHandler (async failing_body) get_users 1 2))) =
       [(2, ''boom'')]
   \<and> escaped (asyncHandler throwing_fn get_users 1 2) = Some ''boom''
   \<and> next_calls (events_of Adapter (trace (asyncHandler throwing_fn get_users 1 2))) = []"
proof -
  have a: "ending (failing_body get_users 1 2) = Throws ''boom''"
    by (simp add: failing_body_def)
  have b: "completion (failing_fn get_users 1 2) = Returned (Rejected ''boom'')"
    by (simp add: failing_fn_def failing_body_def async_def)
  have c: "completion (throwing_fn get_users 1 2) = Threw ''boom''"
    by (simp add: throwing_fn_def)
  show ?thesis
    using a b c
      asyncHandler_failure_routing [of failing_body get_users 1 2 "''boom''" failing_fn throwing_fn]
    by blast
qed

lemma invocations_catch: "invocations (catch p (\<lambda>err. [Next n err])) = []"
  by (cases p) simp_all

lemma res_writes_catch: "res_writes (catch p (\<lambda>err. [Next n err])) = []"
  by (cases p) simp_all

text \<open>
  C10. The adapted handler calls the wrapped handler exactly once, with the request, the
  response object and the continuation it was called with, and what the wrapped handler
  does in the trace is what it does on exactly these arguments.
\<close>

theorem asyncHandler_invokes_wrapped_once:
  "invocations (events_of Adapter (trace (asyncHandler requestHandler req res next))) =
     [(req, res, next)]
   \<and> events_of Wrapped (trace (asyncHandler requestHandler req res next)) =
     effects (requestHandler req res next)"
  by (simp add: adapter_events wrapped_events invocations_catch split: completion.split)

lemma trace_writes:
  "res_writes (map snd (trace (asyncHandler h req res next))) = res_writes (effects (h req res next))"
  by (simp add: all_events res_writes_append res_writes_catch split: completion.split)

section \<open>Routing and the controllers\<close>

lemma strip_mount_same:
  "list_all2 same_segment pre ms \<Longrightarrow> strip_mount ms (pre @ xs) = Some xs"
  by (induction pre ms rule: list_all2_induct) simp_all

lemma app_passed:
  assumes "run_stages [cors, express_json, express_urlencoded] req0 = Pass req"
    and "list_all2 same_segment pre mount_path"
    and "path req = pre @ rest"
  shows "app cors express_json express_urlencoded decodeURIComponent req0 res next =
     dispatch decodeURIComponent router (req\<lparr>path := rest\<rparr>) res next"
  by (simp only: app_def assms(1) assms(3) stage.case strip_mount_same [OF assms(2)] option.case)

lemma app_refused:
  assumes "run_stages [cors, express_json, express_urlencoded] req0 = Refuse e"
  shows "app cors express_json express_urlencoded decodeURIComponent req0 res next = Refused e"
  by (simp only: app_def assms stage.case)

lemma dispatch_post_root:
  assumes "method req = POST" and "path req = []"
  shows "dispatch decodeURIComponent router req res next =
     Handled (createUser (req\<lparr>params := []\<rparr>) res next)"
  using assms by (simp add: router_def)

lemma dispatch_get_root:
  assumes "method req = GET" and "path req = []"
  shows "dispatch decodeURIComponent router req res next =
     Handled (getUsers (req\<lparr>params := []\<rparr>) res next)"
  using assms by (simp add: router_def)

lemma dispatch_get_id:
  assumes "method req = GET" and "path req = [ident]" and "ident \<noteq> []"
    and "decodeURIComponent ident = Some v"
  shows "dispatch decodeURIComponent router req res next =
     Handled (getUserById (req\<lparr>params := [(''id'', v)]\<rparr>) res next)"
  using assms by (simp add: router_def)

lemma dispatch_bad_id:
  assumes "path req = [ident]" and "ident \<noteq> []" and "decodeURIComponent ident = None"
  shows "dispatch decodeURIComponent router req res next = Param_error ident"
  using assms by (simp add: router_def)

lemma createUser_response:
  "response_after res fresh_response (createUser req res next) =
     Inr \<lparr>res_statusCode = Finite 201,
          res_sent = Some (Finite 201, JObj [(''id'', JNum (Finite 1)),
                                             (''username'', JStr ''anson''),
                                             (''email'', JStr ''anson@ansonthedev.com'')])\<rparr>"
  by (simp add: response_after_def writes_on_def createUser_def trace_writes createUser_fn_def
        async_def fresh_response_def)

lemma createUser_quiet:
  "escaped (createUser req res next) = None
   \<and> next_calls (map snd (trace (createUser req res next))) = []"
  by (simp add: createUser_def escaped_asyncHandler all_events createUser_fn_def async_def)

lemma getUsers_response:
  "response_after res fresh_response (getUsers req res next) =
     Inr \<lparr>res_statusCode = Finite 200, res_sent = Some (Finite 200, JArr [])\<rparr>"
  by (simp add: response_after_def writes_on_def getUsers_def trace_writes getUsers_fn_def
        async_def fresh_response_def)

lemma getUsers_quiet:
  "escaped (getUsers req res next) = None
   \<and> next_calls (map snd (trace (getUsers req res next))) = []"
  by (simp add: getUsers_def escaped_asyncHandler all_events getUsers_fn_def async_def)

lemma getUserById_response:
  "response_after res fresh_response (getUserById req res next) =
     Inr \<lparr>res_statusCode = Finite 200, res_sent = Some (Finite 200, JObj [])\<rparr>"
  by (simp add: response_after_def writes_on_def getUserById_def trace_writes getUserById_fn_def
        async_def fresh_response_def)

lemma getUserById_quiet:
  "escaped (getUserById req res next) = None
   \<and> next_calls (map snd (trace (getUserById req res next))) = []"
  by (simp add: getUserById_def escaped_asyncHandler all_events getUserById_fn_def async_def)

text \<open>
  A request that a stage before the router refuses, and a request whose identifier does
  not decode, reach no controller.
\<close>

lemma refused_body_reaches_no_controller:
  "app pass_on strict_json pass_on decode_unescaped (post_users\<lparr>body := JStr ''bob''\<rparr>)
     (1::nat) (2::nat) = Refused ''400''"
  by (simp add: app_def post_users_def pass_on_def strict_json_def)

lemma cut_identifier_reaches_no_controller:
  "(app pass_on strict_json pass_on decode_unescaped get_user_cut (1::nat) (2::nat)
     :: (nat, nat, string) served) = Param_error ''%E0%A4%A''"
proof -
  have passed: "run_stages [pass_on, strict_json, pass_on] get_user_cut = Pass get_user_cut"
    by (simp add: pass_on_def strict_json_def get_user_cut_def)
  have pre: "list_all2 same_segment [''api'', ''v1'', ''users''] mount_path"
    by (simp add: mount_path_def same_segment_def)
  have whole: "path get_user_cut = [''api'', ''v1'', ''users''] @ [''%E0%A4%A'']"
    by (simp add: get_user_cut_def)
  have bad: "decode_unescaped ''%E0%A4%A'' = None"
    by (simp add: decode_unescaped_def)
  show ?thesis
    using bad
    by (simp add: app_passed [OF passed pre whole]
          dispatch_bad_id [where decodeURIComponent = decode_unescaped and ident = "''%E0%A4%A''"])
qed

text \<open>
  C6. Every request that the stages before the router pass on and that arrives as a
  \<open>POST\<close> on the mount path is dispatched to \<open>createUser\<close>. On every request, whatever its
  body and its query, \<open>createUser\<close> sets the status to 201 and then sends the fixed record:
  the client is answered with 201 and that record; nothing is thrown and the continuation
  is not called.
\<close>

theorem createUser_responds_201:
  assumes "run_stages [cors, express_json, express_urlencoded] req0 = Pass req"
    and "method req = POST"
    and "list_all2 same_segment (path req) mount_path"
  shows "(app cors express_json express_urlencoded decodeURIComponent req0 res next
            :: ('r, 'n, 'e) served) =
        Handled (createUser (req\<lparr>path := [], params := []\<rparr>) res next)
    \<and> response_after res fresh_response (createUser req' res next :: (request, 'r, 'n, 'e) run) =
        Inr \<lparr>res_statusCode = Finite 201,
             res_sent = Some (Finite 201, JObj [(''id'', JNum (Finite 1)),
                                                (''username'', JStr ''anson''),
                                                (''email'', JStr ''anson@ansonthedev.com'')])\<rparr>
    \<and> escaped (createUser req' res next :: (request, 'r, 'n, 'e) run) = None
    \<and> next_calls (map snd (trace (createUser req' res next :: (request, 'r, 'n, 'e) run))) = []"
proof -
  have whole: "path req = path req @ []"
    by simp
  have "app cors express_json express_urlencoded decodeURIComponent req0 res next =
      dispatch decodeURIComponent router (req\<lparr>path := []\<rparr>) res next"
    by (rule app_passed [OF assms(1) assms(3) whole])
  also have "\<dots> = Handled (createUser (req\<lparr>path := [], params := []\<rparr>) res next)"
    using assms(2) by (simp add: dispatch_post_root)
  finally show ?thesis
    by (simp add: createUser_response createUser_quiet)
qed

theorem createUser_responds_201_witness:
  "run_stages [pass_on, strict_json, pass_on] post_users = Pass post_users
   \<and> method post_users = POST
   \<and> list_all2 same_segment (path post_users) mount_path
   \<and> (app pass_on strict_json pass_on decode_unescaped post_users (1::nat) (2::nat)
        :: (nat, nat, string) served) =
       Handled (createUser (post_users\<lparr>path := [], params := []\<rparr>) 1 2)
   \<and> response_after 1 fresh_response
       (createUser (post_users\<lparr>path := [], params := []\<rparr>) (1::nat) (2::nat)
         :: (request, nat, nat, string) run) =
       Inr \<lparr>res_statusCode = Finite 201,
            res_sent = Some (Finite 201, JObj [(''id'', JNum (Finite 1)),
                                               (''username'', JStr ''anson''),
                                               (''email'', JStr ''anson@ansonthedev.com'')])\<rparr>"
proof -
  have passed: "run_stages [pass_on, strict_json, pass_on] post_users = Pass post_users"
    by (simp add: pass_on_def strict_json_def post_users_def)
  have m: "method post_users = POST"
    by (simp add: post_users_def)
  have p: "list_all2 same_segment (path post_users) mount_path"
    by (simp add: post_users_def mount_path_def same_segment_def)
  show ?thesis
    using passed m p
      createUser_responds_201 [OF passed m p,
        where ?'r = nat and ?'n = nat,
        of decode_unescaped 1 2 "post_users\<lparr>path := [], params := []\<rparr>"]
    by blast
qed

text \<open>
  C7. Every request that the stages before the router pass on and that arrives as a
  \<open>GET\<close> on the mount path is dispatched to \<open>getUsers\<close>. On every request \<open>getUsers\<close>
  sends the empty list with the status untouched: the client is answered with 200 and the
  empty list; nothing is thrown and the continuation is not called.
\<close>

theorem getUsers_responds_empty_list:
  assumes "run_stages [cors, express_json, express_urlencoded] req0 = Pass req"
    and "method req = GET"
    and "list_all2 same_segment (path req) mount_path"
  shows "(app cors express_json express_urlencoded decodeURIComponent req0 res next
            :: ('r, 'n, 'e) served) =
        Handled (getUsers (req\<lparr>path := [], params := []\<rparr>) res next)
    \<and> response_after res fresh_response (getUsers req' res next :: (request, 'r, 'n, 'e) run) =
        Inr \<lparr>res_statusCode = Finite 200, res_sent = Some (Finite 200, JArr [])\<rparr>
    \<and> escaped (getUsers req' res next :: (request, 'r, 'n, 'e) run) = None
    \<and> next_calls (map snd (trace (getUsers req' res next :: (request, 'r, 'n, 'e) run))) = []"
proof -
  have whole: "path req = path req @ []"
    by simp
  have "app cors express_json express_urlencoded decodeURIComponent req0 res next =
      dispatch decodeURIComponent router (req\<lparr>path := []\<rparr>) res next"
    by (rule app_passed [OF assms(1) assms(3) whole])
  also have "\<dots> = Handled (getUsers (req\<lparr>path := [], params := []\<rparr>) res next)"
    using assms(2) by (simp add: dispatch_get_root)
  finally show ?thesis
    by (simp add: getUsers_response getUsers_quiet)
qed

theorem getUsers_responds_empty_list_witness:
  "run_stages [pass_on, strict_json, pass_on] get_users = Pass get_users
   \<and> method get_users = GET
   \<and> list_all2 same_segment (path get_users) mount_path
   \<and> (app pass_on strict_json pass_on decode_unescaped get_users (1::nat) (2::nat)
        :: (nat, nat, string) served) =
       Handled (getUsers (get_users\<lparr>path := [], params := []\<rparr>) 1 2)
   \<and> response_after 1 fresh_response
       (getUsers (get_users\<lparr>path := [], params := []\<rparr>) (1::nat) (2::nat)
         :: (request, nat, nat, string) run) =
       Inr \<lparr>res_statusCode = Finite 200, res_sent = Some (Finite 200, JArr [])\<rparr>"
proof -
  have passed: "run_stages [pass_on, strict_json, pass_on] get_users = Pass get_users"
    by (simp add: pass_on_def strict_json_def get_users_def)
  have m: "method get_users = GET"
    by (simp add: get_users_def)
  have p: "list_all2 same_segment (path get_users) mount_path"
    by (simp add: get_users_def mount_path_def same_segment_def)
  show ?thesis
    using passed m p
      getUsers_responds_empty_list [OF passed m p,
        where ?'r = nat and ?'n = nat,
        of decode_unescaped 1 2 "get_users\<lparr>path := [], params := []\<rparr>"]
    by blast
qed

text \<open>
  C8. Every request that the stages before the router pass on and that arrives as a
  \<open>GET\<close> on the mount path followed by an identifier that decodes is dispatched to
  \<open>getUserById\<close>, with the decoded identifier in \<open>req.params\<close>. On every request
  \<open>getUserById\<close> sends the empty object with the status untouched: the client is answered
  with 200 and the empty object, and two requests that differ in the identifier get the
  same response.
\<close>

theorem getUserById_ignores_identifier:
  assumes "run_stages [cors, express_json, express_urlencoded] req0 = Pass req"
    and "method req = GET"
    and "list_all2 same_segment pre mount_path"
    and "path req = pre @ [ident]"
    and "ident \<noteq> []"
    and "decodeURIComponent ident = Some v"
    and "run_stages [cors, express_json, express_urlencoded] req0' = Pass req'"
    and "method req' = GET"
    and "list_all2 same_segment pre' mount_path"
    and "path req' = pre' @ [ident']"
    and "ident' \<noteq> []"
    and "decodeURIComponent ident' = Some v'"
  shows "(app cors express_json express_urlencoded decodeURIComponent req0 res next
            :: ('r, 'n, 'e) served) =
        Handled (getUserById (req\<lparr>path := [ident], params := [(''id'', v)]\<rparr>) res next)
    \<and> (app cors express_json express_urlencoded decodeURIComponent req0' res next
            :: ('r, 'n, 'e) served) =
        Handled (getUserById (req'\<lparr>path := [ident'], params := [(''id'', v')]\<rparr>) res next)
    \<and> response_after res fresh_response
        (getUserById (req\<lparr>path := [ident], params := [(''id'', v)]\<rparr>) res next
          :: (request, 'r, 'n, 'e) run) =
        Inr \<lparr>res_statusCode = Finite 200, res_sent = Some (Finite 200, JObj [])\<rparr>
    \<and> response_after res fresh_response
        (getUserById (req'\<lparr>path := [ident'], params := [(''id'', v')]\<rparr>) res next
          :: (request, 'r, 'n, 'e) run) =
      response_after res fresh_response
        (getUserById (req\<lparr>path := [ident], params := [(''id'', v)]\<rparr>) res next
          :: (request, 'r, 'n, 'e) run)
    \<and> escaped (getUserById (req\<lparr>path := [ident], params := [(''id'', v)]\<rparr>) res next
          :: (request, 'r, 'n, 'e) run) = None
    \<and> next_calls (map snd (trace
        (getUserById (req\<lparr>path := [ident], params := [(''id'', v)]\<rparr>) res next
          :: (request, 'r, 'n, 'e) run))) = []"
proof -
  have "app cors express_json express_urlencoded decodeURIComponent req0 res next =
      dispatch decodeURIComponent router (req\<lparr>path := [ident]\<rparr>) res next"
    by (rule app_passed [OF assms(1) assms(3) assms(4)])
  also have "\<dots> =
      Handled (getUserById (req\<lparr>path := [ident], params := [(''id'', v)]\<rparr>) res next)"
    using assms(2) assms(5) assms(6) by (simp add: dispatch_get_id)
  finally have first: "app cors express_json express_urlencoded decodeURIComponent req0 res next =
      Handled (getUserById (req\<lparr>path := [ident], params := [(''id'', v)]\<rparr>) res next)" .
  have "app cors express_json express_urlencoded decodeURIComponent req0' res next =
      dispatch decodeURIComponent router (req'\<lparr>path := [ident']\<rparr>) res next"
    by (rule app_passed [OF assms(7) assms(9) assms(10)])
  also have "\<dots> =
      Handled (getUserById (req'\<lparr>path := [ident'], params := [(''id'', v')]\<rparr>) res next)"
    using assms(8) assms(11) assms(12) by (simp add: dispatch_get_id)
  finally have second: "app cors express_json express_urlencoded decodeURIComponent req0' res next =
      Handled (getUserById (req'\<lparr>path := [ident'], params := [(''id'', v')]\<rparr>) res next)" .
  show ?thesis
    by (simp add: first second getUserById_response getUserById_quiet)
qed

theorem getUserById_ignores_identifier_witness:
  "run_stages [pass_on, strict_json, pass_on] get_user_7 = Pass get_user_7
   \<and> method get_user_7 = GET
   \<and> path get_user_7 = [''api'', ''v1'', ''users''] @ [''7'']
   \<and> decode_unescaped ''7'' = Some ''7''
   \<and> run_stages [pass_on, strict_json, pass_on] get_user_anson = Pass get_user_anson
   \<and> method get_user_anson = GET
   \<and> path get_user_anson = [''API'', ''v1'', ''Users''] @ [''anson'']
   \<and> decode_unescaped ''anson'' = Some ''anson''
   \<and> (app pass_on strict_json pass_on decode_unescaped get_user_7 (1::nat) (2::nat)
        :: (nat, nat, string) served) =
       Handled (getUserById (get_user_7\<lparr>path := [''7''], params := [(''id'', ''7'')]\<rparr>) 1 2)
   \<and> (app pass_on strict_json pass_on decode_unescaped get_user_anson (1::nat) (2::nat)
        :: (nat, nat, string) served) =
       Handled (getUserById
         (get_user_anson\<lparr>path := [''anson''], params := [(''id'', ''anson'')]\<rparr>) 1 2)
   \<and> response_after 1 fresh_response
       (getUserById (get_user_7\<lparr>path := [''7''], params := [(''id'', ''7'')]\<rparr>)
         (1::nat) (2::nat) :: (request, nat, nat, string) run) =
       Inr \<lparr>res_statusCode = Finite 200, res_sent = Some (Finite 200, JObj [])\<rparr>
   \<and> response_after 1 fresh_response
       (getUserById (get_user_anson\<lparr>path := [''anson''], params := [(''id'', ''anson'')]\<rparr>)
         (1::nat) (2::nat) :: (request, nat, nat, string) run) =
     response_after 1 fresh_response
       (getUserById (get_user_7\<lparr>path := [''7''], params := [(''id'', ''7'')]\<rparr>)
         (1::nat) (2::nat) :: (request, nat, nat, string) run)"
proof -
  have passed: "run_stages [pass_on, strict_json, pass_on] get_user_7 = Pass get_user_7"
    by (simp add: pass_on_def strict_json_def get_user_7_def)
  have m: "method get_user_7 = GET"
    by (simp add: get_user_7_def)
  have pre: "list_all2 same_segment [''api'', ''v1'', ''users''] mount_path"
    by (simp add: mount_path_def same_segment_def)
  have p: "path get_user_7 = [''api'', ''v1'', ''users''] @ [''7'']"
    by (simp add: get_user_7_def)
  have i: "''7'' \<noteq> []"
    by simp
  have d: "decode_unescaped ''7'' = Some ''7''"
    by (simp add: decode_unescaped_def)
  have passed': "run_stages [pass_on, strict_json, pass_on] get_user_anson = Pass get_user_anson"
    by (simp add: pass_on_def strict_json_def get_user_anson_def)
  have m': "method get_user_anson = GET"
    by (simp add: get_user_anson_def)
  have pre': "list_all2 same_segment [''API'', ''v1'', ''Users''] mount_path"
    by (simp add: mount_path_def same_segment_def lower_def)
  have p': "path get_user_anson = [''API'', ''v1'', ''Users''] @ [''anson'']"
    by (simp add: get_user_anson_def)
  have i': "''anson'' \<noteq> []"
    by simp
  have d': "decode_unescaped ''anson'' = Some ''anson''"
    by (simp add: decode_unescaped_def)
  show ?thesis
    using passed m p d passed' m' p' d'
      getUserById_ignores_identifier [OF passed m pre p i d passed' m' pre' p' i' d',
        where ?'r = nat and ?'n = nat, of 1 2]
    by blast
qed

text \<open>
  C9. \<open>loginUser\<close> performs nothing on the response object: the wrapped function has no
  effect and its deferred result is fulfilled, the trace holds no write and no call of the
  continuation, nothing is thrown, and any response state is left as it was.
\<close>

theorem loginUser_writes_nothing:
  "effects (loginUser_fn req res next :: ('q, 'r, 'n, 'e) outcome) = []
   \<and> completion (loginUser_fn req res next :: ('q, 'r, 'n, 'e) outcome) = Returned (Fulfilled None)
   \<and> res_writes (map snd (trace (loginUser req res next :: ('q, 'r, 'n, 'e) run))) = []
   \<and> next_calls (map snd (trace (loginUser req res next :: ('q, 'r, 'n, 'e) run))) = []
   \<and> escaped (loginUser req res next :: ('q, 'r, 'n, 'e) run) = None
   \<and> response_after res r0 (loginUser req res next :: ('q, 'r, 'n, 'e) run) = Inr r0"
  by (simp add: loginUser_def loginUser_fn_def async_def all_events escaped_asyncHandler
        response_after_def writes_on_def)

section \<open>The value objects\<close>

text \<open>
  C4. The \<open>success\<close> field of a constructed \<open>ApiResponse\<close> is the comparison of the
  status code with 400, for every status code, payload and message: for a finite status
  code it is \<open>statusCode < 400\<close>, so 201 gives true and 404 gives false.
\<close>

theorem ApiResponse_success_flag:
  "ApiResponse.success (new_ApiResponse sc d m) = js_lt sc (Finite 400)
   \<and> ApiResponse.success (new_ApiResponse (Finite x) d m) = (x < 400)
   \<and> ApiResponse.success (new_ApiResponse (Finite 201) d m) = True
   \<and> ApiResponse.success (new_ApiResponse (Finite 404) d m) = False"
  by (simp add: new_ApiResponse_def)

text \<open>
  C5, as stated, fails in its second half: a later write on the instance, which the
  compiler accepts and nothing at run time prevents, makes \<open>success\<close> true.
  \<^verbatim>\<open>Object.assign(new ApiError(404), { success: true }).success === true\<close>
\<close>

theorem ApiError_success_overwritten_counterexample:
  "ApiError.success (Object_assign (new_ApiError (Finite 404) None None) [Prop_success True]) = True"
  by (simp add: new_ApiError_def)

text \<open>
  C5, amended. The \<open>success\<close> field of a constructed \<open>ApiError\<close> is false for every status
  code, message and stack argument, given or left out: no constructor argument makes it
  true.
\<close>

theorem ApiError_success_false_at_construction:
  "ApiError.success (new_ApiError sc m st) = False"
  by (simp add: new_ApiError_def Let_def)

end
